theory Spec2Isabelle
  imports Main
begin

section \<open>JavaScript values received from the remote authority\<close>

text \<open>
  The payloads of the remote procedures (\<open>data\<close>, \<open>error\<close>, the session object) are
  untyped at run time: the TypeScript annotations of \<open>adminService.ts\<close> are unchecked
  casts (\<open>data as AdminStatus\<close>, \<open>data as RoleOperationResult\<close>). They are modelled
  as JSON-like values. Numbers are integers here: the code only ever tests a number for
  truthiness.
\<close>

datatype jsval =
    JUndefined
  | JNull
  | JBool bool
  | JNum int
  | JStr string
  | JArr "jsval list"
  | JObj "(string \<times> jsval) list"

text \<open>What \<open>if (v)\<close>, \<open>!v\<close> and \<open>v || w\<close> test.\<close>

fun truthy :: "jsval \<Rightarrow> bool" where
  "truthy JUndefined = False"
| "truthy JNull = False"
| "truthy (JBool b) = b"
| "truthy (JNum n) = (n \<noteq> 0)"
| "truthy (JStr s) = (s \<noteq> [])"
| "truthy (JArr xs) = True"
| "truthy (JObj kvs) = True"

text \<open>
  A thrown value: an instance of \<open>Error\<close> with its message, or any other value
  (\<open>error instanceof Error\<close> tells them apart).
\<close>

datatype thrown = ErrorInst string | ThrownVal jsval

text \<open>
  Reading a property, \<open>v.name\<close>. On \<open>undefined\<close> and \<open>null\<close> it raises a TypeError
  (the text is V8's and is never inspected by the code below); on an object it yields
  the stored value or \<open>undefined\<close>; on the other values it yields \<open>undefined\<close> for
  every name read in this file (none of them is a built-in property).
\<close>

fun get_prop :: "jsval \<Rightarrow> string \<Rightarrow> thrown + jsval" where
  "get_prop JUndefined name =
     Inl (ErrorInst (''Cannot read properties of undefined (reading '' @ name @ '')''))"
| "get_prop JNull name =
     Inl (ErrorInst (''Cannot read properties of null (reading '' @ name @ '')''))"
| "get_prop (JObj kvs) name = Inr (case map_of kvs name of None \<Rightarrow> JUndefined | Some v \<Rightarrow> v)"
| "get_prop v name = Inr JUndefined"

text \<open>The field of a value as a specification reads it: \<open>undefined\<close> when there is none.\<close>

definition field :: "jsval \<Rightarrow> string \<Rightarrow> jsval" where
  "field v name = (case get_prop v name of Inl e \<Rightarrow> JUndefined | Inr w \<Rightarrow> w)"

section \<open>The remote authority and the calls made to it\<close>

text \<open>
  \<open>supabase.rpc\<close> and \<open>supabase.auth.getSession\<close> return promises. A promise rejects
  with a thrown value, or resolves to the envelope the client library builds itself:
  \<open>{ data, error }\<close> for a remote procedure, \<open>{ data: { session }, error }\<close> for the
  session accessor.
\<close>

datatype 'a outcome = Rejects thrown | Resolves 'a

record rpc_response =
  data :: jsval
  error :: jsval

record session_response =
  session :: jsval
  sessionError :: jsval

text \<open>
  A call made to the authority: the session accessor, or a remote procedure by name with
  its argument object (\<open>undefined\<close> when the source passes none).
\<close>

datatype call = GetSession | Rpc string jsval

text \<open>
  The authority is opaque: its answer to a call may depend on every call made before.
\<close>

record remote =
  getSession :: "call list \<Rightarrow> session_response outcome"
  rpc :: "call list \<Rightarrow> string \<Rightarrow> jsval \<Rightarrow> rpc_response outcome"

section \<open>Asynchronous code with exceptions\<close>

text \<open>
  A computation takes the calls made so far and returns a value or a thrown value,
  with the calls made up to then. \<open>console.log\<close> and \<open>console.error\<close> are left out:
  they affect neither the control flow nor the result.
\<close>

type_synonym 'a io = "call list \<Rightarrow> (thrown + 'a) \<times> call list"

definition return_io :: "'a \<Rightarrow> 'a io" where
  "return_io x = (\<lambda>tr. (Inr x, tr))"

definition lift_io :: "thrown + 'a \<Rightarrow> 'a io" where
  "lift_io r = (\<lambda>tr. (r, tr))"

definition bind_io :: "'a io \<Rightarrow> ('a \<Rightarrow> 'b io) \<Rightarrow> 'b io" where
  "bind_io m f = (\<lambda>tr. case m tr of (Inl e, tr') \<Rightarrow> (Inl e, tr') | (Inr x, tr') \<Rightarrow> f x tr')"

text \<open>\<open>try { m } catch (e) { h e }\<close>\<close>

definition try_catch :: "'a io \<Rightarrow> (thrown \<Rightarrow> 'a io) \<Rightarrow> 'a io" where
  "try_catch m h = (\<lambda>tr. case m tr of (Inl e, tr') \<Rightarrow> h e tr' | (Inr x, tr') \<Rightarrow> (Inr x, tr'))"

text \<open>\<open>await supabase.auth.getSession()\<close> and \<open>await supabase.rpc(name, args)\<close>\<close>

definition await_getSession :: "remote \<Rightarrow> session_response io" where
  "await_getSession env = (\<lambda>tr.
     case getSession env tr of
       Rejects e \<Rightarrow> (Inl e, tr @ [GetSession])
     | Resolves r \<Rightarrow> (Inr r, tr @ [GetSession]))"

definition await_rpc :: "remote \<Rightarrow> string \<Rightarrow> jsval \<Rightarrow> rpc_response io" where
  "await_rpc env name args = (\<lambda>tr.
     case rpc env tr name args of
       Rejects e \<Rightarrow> (Inl e, tr @ [Rpc name args])
     | Resolves r \<Rightarrow> (Inr r, tr @ [Rpc name args]))"

section \<open>AdminService\<close>

text \<open>
  \<open>isCurrentUserAdmin\<close> (the same in \<open>services/adminService.ts\<close> and in the extended
  service, log texts apart).
\<close>

definition isCurrentUserAdmin :: "remote \<Rightarrow> bool io" where
  "isCurrentUserAdmin env =
     try_catch
       (bind_io (await_rpc env ''is_current_user_admin'' JUndefined) (\<lambda>r.
          if truthy (error r) then return_io False
          else return_io (data r = JBool True)))
       (\<lambda>e. return_io False)"

definition getAdminStatus :: "remote \<Rightarrow> jsval io" where
  "getAdminStatus env =
     try_catch
       (bind_io (await_rpc env ''debug_admin_status'' JUndefined) (\<lambda>r.
          if truthy (error r) then return_io JNull
          else return_io (data r)))
       (\<lambda>e. return_io JNull)"

definition syncAdminRole :: "remote \<Rightarrow> jsval \<Rightarrow> bool io" where
  "syncAdminRole env userId =
     try_catch
       (bind_io (await_rpc env ''sync_user_admin_role'' (JObj [(''target_user_id'', userId)])) (\<lambda>r.
          if truthy (error r) then return_io False
          else return_io True))
       (\<lambda>e. return_io False)"

text \<open>The verdict \<open>{ success, message }\<close> and the seven object literals of the source.\<close>

record verdict =
  success :: bool
  message :: string

definition no_session_verdict :: verdict where
  "no_session_verdict = \<lparr>success = False, message = ''No active session. Please log in.''\<rparr>"

definition status_failed_verdict :: verdict where
  "status_failed_verdict = \<lparr>success = False, message = ''Failed to check admin status.''\<rparr>"

definition unauthenticated_verdict :: verdict where
  "unauthenticated_verdict = \<lparr>success = False, message = ''User is not authenticated.''\<rparr>"

definition verified_verdict :: verdict where
  "verified_verdict = \<lparr>success = True, message = ''Admin access verified successfully.''\<rparr>"

definition synced_verdict :: verdict where
  "synced_verdict = \<lparr>success = True,
     message = ''Admin role synced. Please refresh the page or log out and log back in.''\<rparr>"

definition not_found_verdict :: verdict where
  "not_found_verdict = \<lparr>success = False,
     message = ''Admin privileges not found. Contact support if you should have admin access.''\<rparr>"

definition verify_failed_verdict :: verdict where
  "verify_failed_verdict = \<lparr>success = False, message = ''Failed to verify admin access.''\<rparr>"

text \<open>
  \<open>adminStatus.metadata_role === 'admin' && adminStatus.profile_role !== 'admin'\<close>:
  the second operand is read only when the first holds.
\<close>

definition roles_mismatch :: "jsval \<Rightarrow> bool io" where
  "roles_mismatch adminStatus =
     bind_io (lift_io (get_prop adminStatus ''metadata_role'')) (\<lambda>metadata_role.
       if metadata_role = JStr ''admin'' then
         bind_io (lift_io (get_prop adminStatus ''profile_role'')) (\<lambda>profile_role.
           return_io (profile_role \<noteq> JStr ''admin''))
       else return_io False)"

text \<open>
  The body of the \<open>try\<close> block of \<open>verifyAndFixAdminAccess\<close>. When the sync is not
  attempted or fails, control falls through to the last \<open>return\<close>. \<open>session.user.id\<close> is
  read before \<open>syncAdminRole\<close> is called and raises when the session has no user.
\<close>

definition verify_body :: "remote \<Rightarrow> verdict io" where
  "verify_body env =
     bind_io (await_getSession env) (\<lambda>r.
       if truthy (sessionError r) \<or> \<not> truthy (session r) then return_io no_session_verdict
       else
         bind_io (getAdminStatus env) (\<lambda>adminStatus.
           if \<not> truthy adminStatus then return_io status_failed_verdict
           else
             bind_io (lift_io (get_prop adminStatus ''authenticated'')) (\<lambda>authenticated.
               if \<not> truthy authenticated then return_io unauthenticated_verdict
               else
                 bind_io (lift_io (get_prop adminStatus ''is_admin_result'')) (\<lambda>is_admin_result.
                   if truthy is_admin_result then return_io verified_verdict
                   else
                     bind_io (roles_mismatch adminStatus) (\<lambda>mismatch.
                       if mismatch then
                         bind_io (lift_io (get_prop (session r) ''user'')) (\<lambda>user.
                           bind_io (lift_io (get_prop user ''id'')) (\<lambda>userId.
                             bind_io (syncAdminRole env userId) (\<lambda>synced.
                               if synced then return_io synced_verdict
                               else return_io not_found_verdict)))
                       else return_io not_found_verdict)))))"

definition verifyAndFixAdminAccess :: "remote \<Rightarrow> verdict io" where
  "verifyAndFixAdminAccess env =
     try_catch (verify_body env) (\<lambda>e. return_io verify_failed_verdict)"

text \<open>
  \<open>grantAdminRole\<close> and \<open>revokeAdminRole\<close> (the same in both service files).
  \<open>error.message || text\<close> takes the fixed text when the message is falsy; without an
  error, \<open>data\<close> is returned as it came (\<open>data as RoleOperationResult\<close> checks nothing).
\<close>

definition failure_result :: "jsval \<Rightarrow> jsval" where
  "failure_result msg = JObj [(''success'', JBool False), (''message'', msg)]"

definition grantAdminRole :: "remote \<Rightarrow> jsval \<Rightarrow> jsval io" where
  "grantAdminRole env userId =
     try_catch
       (bind_io (await_rpc env ''grant_admin_role'' (JObj [(''target_user_id'', userId)])) (\<lambda>r.
          if truthy (error r) then
            bind_io (lift_io (get_prop (error r) ''message'')) (\<lambda>msg.
              return_io (failure_result
                (if truthy msg then msg else JStr ''Failed to grant admin role'')))
          else return_io (data r)))
       (\<lambda>e. return_io (failure_result
          (case e of ErrorInst m \<Rightarrow> JStr m
           | ThrownVal v \<Rightarrow> JStr ''Failed to grant admin role'')))"

definition revokeAdminRole :: "remote \<Rightarrow> jsval \<Rightarrow> jsval io" where
  "revokeAdminRole env userId =
     try_catch
       (bind_io (await_rpc env ''revoke_admin_role'' (JObj [(''target_user_id'', userId)])) (\<lambda>r.
          if truthy (error r) then
            bind_io (lift_io (get_prop (error r) ''message'')) (\<lambda>msg.
              return_io (failure_result
                (if truthy msg then msg else JStr ''Failed to revoke admin role'')))
          else return_io (data r)))
       (\<lambda>e. return_io (failure_result
          (case e of ErrorInst m \<Rightarrow> JStr m
           | ThrownVal v \<Rightarrow> JStr ''Failed to revoke admin role'')))"

text \<open>The interface \<open>RoleOperationResult\<close>, as a test on a run-time value.\<close>

fun optional_string :: "jsval \<Rightarrow> bool" where
  "optional_string JUndefined = True"
| "optional_string (JStr s) = True"
| "optional_string v = False"

fun is_RoleOperationResult :: "jsval \<Rightarrow> bool" where
  "is_RoleOperationResult (JObj kvs) =
     ((case map_of kvs ''success'' of Some (JBool b) \<Rightarrow> True | _ \<Rightarrow> False) \<and>
      (case map_of kvs ''message'' of Some (JStr m) \<Rightarrow> True | _ \<Rightarrow> False) \<and>
      optional_string (field (JObj kvs) ''user_id'') \<and>
      optional_string (field (JObj kvs) ''user_email''))"
| "is_RoleOperationResult v = False"

section \<open>Vocabulary of the properties\<close>

text \<open>The calls a computation makes when started after the calls \<open>tr\<close>.\<close>

definition calls_made :: "'a io \<Rightarrow> call list \<Rightarrow> call list" where
  "calls_made m tr = drop (length tr) (snd (m tr))"

fun is_sync_request :: "call \<Rightarrow> bool" where
  "is_sync_request (Rpc name args) = (name = ''sync_user_admin_role'')"
| "is_sync_request GetSession = False"

fun is_snapshot_fetch :: "call \<Rightarrow> bool" where
  "is_snapshot_fetch (Rpc name args) = (name = ''debug_admin_status'')"
| "is_snapshot_fetch GetSession = False"

text \<open>A remote procedure call reports an error: its envelope carries a truthy \<open>error\<close>.\<close>

fun reports_error :: "rpc_response outcome \<Rightarrow> bool" where
  "reports_error (Resolves r) = truthy (error r)"
| "reports_error (Rejects e) = False"

fun throws :: "'a outcome \<Rightarrow> bool" where
  "throws (Rejects e) = True"
| "throws (Resolves r) = False"

text \<open>The request itself succeeded: it neither threw nor reported an error.\<close>

definition request_succeeds :: "rpc_response outcome \<Rightarrow> bool" where
  "request_succeeds out = (\<not> throws out \<and> \<not> reports_error out)"

text \<open>
  The session accessor, asked after the calls \<open>tr\<close>, yields the live session \<open>s\<close>:
  no error and a session object.
\<close>

definition live_session :: "remote \<Rightarrow> call list \<Rightarrow> jsval \<Rightarrow> bool" where
  "live_session env tr s =
     (case getSession env tr of
        Rejects e \<Rightarrow> False
      | Resolves r \<Rightarrow> \<not> truthy (sessionError r) \<and> truthy (session r) \<and> session r = s)"

text \<open>The session accessor yields no session, or a session error.\<close>

definition no_session :: "remote \<Rightarrow> call list \<Rightarrow> bool" where
  "no_session env tr =
     (case getSession env tr of
        Rejects e \<Rightarrow> False
      | Resolves r \<Rightarrow> truthy (sessionError r) \<or> \<not> truthy (session r))"

text \<open>
  The snapshot that \<open>getAdminStatus\<close> hands to \<open>verifyAndFixAdminAccess\<close>, which calls
  it right after the session accessor.
\<close>

definition snapshot_returned :: "remote \<Rightarrow> call list \<Rightarrow> jsval \<Rightarrow> bool" where
  "snapshot_returned env tr snap = (fst (getAdminStatus env (tr @ [GetSession])) = Inr snap)"

text \<open>\<open>session.user.id\<close>\<close>

definition session_user_id :: "jsval \<Rightarrow> thrown + jsval" where
  "session_user_id s = (case get_prop s ''user'' of Inl e \<Rightarrow> Inl e | Inr u \<Rightarrow> get_prop u ''id'')"

text \<open>
  The snapshot takes \<open>verifyAndFixAdminAccess\<close> to its sync attempt: it passes the
  tests on \<open>authenticated\<close> and \<open>is_admin_result\<close> and shows the mismatch of roles.
\<close>

definition repairable_divergence :: "jsval \<Rightarrow> bool" where
  "repairable_divergence snap =
     (truthy (field snap ''authenticated'') \<and> \<not> truthy (field snap ''is_admin_result'') \<and>
      field snap ''metadata_role'' = JStr ''admin'' \<and>
      field snap ''profile_role'' \<noteq> JStr ''admin'')"

text \<open>The text of the error a remote procedure call reports, \<open>error.message\<close>.\<close>

fun error_text :: "rpc_response outcome \<Rightarrow> jsval" where
  "error_text (Resolves r) = field (error r) ''message''"
| "error_text (Rejects e) = JUndefined"

section \<open>Concrete authorities\<close>

text \<open>
  An authority that answers the same whatever came before: \<open>sess\<close> to the session
  accessor, \<open>status\<close> to \<open>debug_admin_status\<close> and \<open>other\<close> to every other procedure.
\<close>

definition scenario ::
  "session_response outcome \<Rightarrow> rpc_response outcome \<Rightarrow> rpc_response outcome \<Rightarrow> remote" where
  "scenario sess status other =
     \<lparr>getSession = (\<lambda>tr. sess),
      rpc = (\<lambda>tr name args. if name = ''debug_admin_status'' then status else other)\<rparr>"

definition demo_session :: jsval where
  "demo_session = JObj [(''user'', JObj [(''id'', JStr ''user-1'')])]"

definition signed_in :: "session_response outcome" where
  "signed_in = Resolves \<lparr>session = demo_session, sessionError = JNull\<rparr>"

definition userless :: "session_response outcome" where
  "userless = Resolves \<lparr>session = JObj [], sessionError = JNull\<rparr>"

definition signed_out :: "session_response outcome" where
  "signed_out = Resolves \<lparr>session = JNull, sessionError = JNull\<rparr>"

definition answer :: "jsval \<Rightarrow> rpc_response outcome" where
  "answer d = Resolves \<lparr>data = d, error = JNull\<rparr>"

definition refusal :: "string \<Rightarrow> rpc_response outcome" where
  "refusal m = Resolves \<lparr>data = JNull, error = JObj [(''message'', JStr m)]\<rparr>"

definition unreachable :: "'a outcome" where
  "unreachable = Rejects (ErrorInst ''Failed to fetch'')"

definition snapshot_of :: "bool \<Rightarrow> string \<Rightarrow> string \<Rightarrow> bool \<Rightarrow> jsval" where
  "snapshot_of auth profile metadata verdict =
     JObj [(''authenticated'', JBool auth), (''profile_role'', JStr profile),
           (''metadata_role'', JStr metadata), (''is_admin_result'', JBool verdict)]"

section \<open>Facts about the service's operations\<close>

lemmas io_defs = return_io_def lift_io_def bind_io_def try_catch_def await_getSession_def await_rpc_def

lemma get_prop_truthy: "truthy v \<Longrightarrow> get_prop v name = Inr (field v name)"
  by (cases v) (simp_all add: field_def)

lemma field_defined_truthy: "field v name \<noteq> JUndefined \<Longrightarrow> truthy v"
  by (cases v) (simp_all add: field_def)

lemma getAdminStatus_calls:
  "snd (getAdminStatus env tr) = tr @ [Rpc ''debug_admin_status'' JUndefined]"
  by (simp add: getAdminStatus_def io_defs split: outcome.splits)

lemma getAdminStatus_returns: "\<exists>v. fst (getAdminStatus env tr) = Inr v"
  by (simp add: getAdminStatus_def io_defs split: outcome.splits)

lemma getAdminStatus_pair:
  "fst (getAdminStatus env tr) = Inr snap \<Longrightarrow>
   getAdminStatus env tr = (Inr snap, tr @ [Rpc ''debug_admin_status'' JUndefined])"
  using getAdminStatus_calls [of env tr] by (cases "getAdminStatus env tr") simp

lemma syncAdminRole_eq:
  "syncAdminRole env uid tr =
     (Inr (request_succeeds (rpc env tr ''sync_user_admin_role'' (JObj [(''target_user_id'', uid)]))),
      tr @ [Rpc ''sync_user_admin_role'' (JObj [(''target_user_id'', uid)])])"
  by (simp add: syncAdminRole_def request_succeeds_def io_defs split: outcome.splits)

lemma verify_body_live:
  assumes "live_session env tr s" and "snapshot_returned env tr snap"
  shows "verify_body env tr =
     (if \<not> truthy snap then return_io status_failed_verdict
      else if \<not> truthy (field snap ''authenticated'') then return_io unauthenticated_verdict
      else if truthy (field snap ''is_admin_result'') then return_io verified_verdict
      else if field snap ''metadata_role'' = JStr ''admin'' \<and>
              field snap ''profile_role'' \<noteq> JStr ''admin''
      then bind_io (lift_io (session_user_id s)) (\<lambda>userId.
             bind_io (syncAdminRole env userId) (\<lambda>synced.
               if synced then return_io synced_verdict else return_io not_found_verdict))
      else return_io not_found_verdict)
     (tr @ [GetSession, Rpc ''debug_admin_status'' JUndefined])"
proof -
  from assms(1) obtain r where r: "getSession env tr = Resolves r"
      "\<not> truthy (sessionError r)" "truthy (session r)" "session r = s"
    by (auto simp: live_session_def split: outcome.splits)
  from assms(2) have g: "getAdminStatus env (tr @ [GetSession]) =
      (Inr snap, tr @ [GetSession, Rpc ''debug_admin_status'' JUndefined])"
    using getAdminStatus_pair [of env "tr @ [GetSession]" snap]
    by (simp add: snapshot_returned_def)
  show ?thesis
  proof (cases "truthy snap")
    case False
    then show ?thesis using r g by (simp add: verify_body_def io_defs)
  next
    case True
    then show ?thesis using r g
      by (simp add: verify_body_def roles_mismatch_def io_defs get_prop_truthy
          session_user_id_def split: sum.splits)
  qed
qed

lemma verify_live:
  assumes "live_session env tr s" and "snapshot_returned env tr snap"
  shows "verifyAndFixAdminAccess env tr =
     try_catch
     (if \<not> truthy snap then return_io status_failed_verdict
      else if \<not> truthy (field snap ''authenticated'') then return_io unauthenticated_verdict
      else if truthy (field snap ''is_admin_result'') then return_io verified_verdict
      else if field snap ''metadata_role'' = JStr ''admin'' \<and>
              field snap ''profile_role'' \<noteq> JStr ''admin''
      then bind_io (lift_io (session_user_id s)) (\<lambda>userId.
             bind_io (syncAdminRole env userId) (\<lambda>synced.
               if synced then return_io synced_verdict else return_io not_found_verdict))
      else return_io not_found_verdict) (\<lambda>e. return_io verify_failed_verdict)
     (tr @ [GetSession, Rpc ''debug_admin_status'' JUndefined])"
  using verify_body_live [OF assms]
  by (simp add: verifyAndFixAdminAccess_def try_catch_def)

lemmas verdict_defs = no_session_verdict_def status_failed_verdict_def
  unauthenticated_verdict_def verified_verdict_def synced_verdict_def
  not_found_verdict_def verify_failed_verdict_def

lemmas scenario_defs = scenario_def demo_session_def signed_in_def signed_out_def
  userless_def answer_def
  refusal_def unreachable_def snapshot_of_def

lemma verify_returns: "\<exists>v. fst (verifyAndFixAdminAccess env tr) = Inr v"
  by (cases "verify_body env tr")
     (auto simp: verifyAndFixAdminAccess_def try_catch_def return_io_def split: sum.splits)

lemma repairable_truthy: "repairable_divergence snap \<Longrightarrow> truthy snap"
  using field_defined_truthy [of snap "''metadata_role''"]
  by (simp add: repairable_divergence_def)

lemma snapshot_when_throws:
  "throws (rpc env (tr @ [GetSession]) ''debug_admin_status'' JUndefined) \<Longrightarrow>
   snapshot_returned env tr JNull"
  by (cases "rpc env (tr @ [GetSession]) ''debug_admin_status'' JUndefined")
     (simp_all add: snapshot_returned_def getAdminStatus_def io_defs)

lemma grantAdminRole_eq:
  "fst (grantAdminRole env userId tr) =
     Inr (case rpc env tr ''grant_admin_role'' (JObj [(''target_user_id'', userId)]) of
            Rejects (ErrorInst m) \<Rightarrow> failure_result (JStr m)
          | Rejects (ThrownVal v) \<Rightarrow> failure_result (JStr ''Failed to grant admin role'')
          | Resolves r \<Rightarrow>
              if truthy (error r) then
                failure_result (if truthy (field (error r) ''message'')
                                then field (error r) ''message''
                                else JStr ''Failed to grant admin role'')
              else data r)"
  by (simp add: grantAdminRole_def io_defs get_prop_truthy
      split: outcome.splits thrown.splits)

lemma revokeAdminRole_eq:
  "fst (revokeAdminRole env userId tr) =
     Inr (case rpc env tr ''revoke_admin_role'' (JObj [(''target_user_id'', userId)]) of
            Rejects (ErrorInst m) \<Rightarrow> failure_result (JStr m)
          | Rejects (ThrownVal v) \<Rightarrow> failure_result (JStr ''Failed to revoke admin role'')
          | Resolves r \<Rightarrow>
              if truthy (error r) then
                failure_result (if truthy (field (error r) ''message'')
                                then field (error r) ''message''
                                else JStr ''Failed to revoke admin role'')
              else data r)"
  by (simp add: revokeAdminRole_def io_defs get_prop_truthy
      split: outcome.splits thrown.splits)

section \<open>Reconciliation: \<open>verifyAndFixAdminAccess\<close>\<close>

text \<open>
  C1, as amended. With a live session whose user id can be read (\<open>session.user.id\<close>)
  and a snapshot that has \<open>authenticated = true\<close>, \<open>is_admin_result = false\<close>,
  \<open>metadata_role = "admin"\<close> and \<open>profile_role\<close> other than \<open>"admin"\<close>,
  \<open>verifyAndFixAdminAccess\<close> makes exactly one sync request, for that user id. When
  that request succeeds the verdict has \<open>success = true\<close>; when it fails the verdict is
  the failure "Admin privileges not found. Contact support if you should have admin
  access.".
\<close>

theorem repairable_divergence_one_sync:
  assumes "live_session env tr s"
    and "session_user_id s = Inr uid"
    and "snapshot_returned env tr snap"
    and "field snap ''authenticated'' = JBool True"
    and "field snap ''is_admin_result'' = JBool False"
    and "field snap ''metadata_role'' = JStr ''admin''"
    and "field snap ''profile_role'' \<noteq> JStr ''admin''"
  shows "filter is_sync_request (calls_made (verifyAndFixAdminAccess env) tr) =
           [Rpc ''sync_user_admin_role'' (JObj [(''target_user_id'', uid)])] \<and>
         fst (verifyAndFixAdminAccess env tr) =
           Inr (if request_succeeds
                     (rpc env (tr @ [GetSession, Rpc ''debug_admin_status'' JUndefined])
                        ''sync_user_admin_role'' (JObj [(''target_user_id'', uid)]))
                then \<lparr>success = True, message =
                  ''Admin role synced. Please refresh the page or log out and log back in.''\<rparr>
                else \<lparr>success = False, message =
                  ''Admin privileges not found. Contact support if you should have admin access.''\<rparr>)"
proof -
  have t: "truthy snap" using assms(4) field_defined_truthy [of snap "''authenticated''"] by simp
  show ?thesis
    using t assms(2,4-7)
    by (simp add: verify_live [OF assms(1,3)] calls_made_def io_defs syncAdminRole_eq verdict_defs)
qed

theorem repairable_divergence_one_sync_witness:
  "live_session (scenario signed_in (answer (snapshot_of True ''client'' ''admin'' False))
       (answer JNull)) [] demo_session \<and>
   session_user_id demo_session = Inr (JStr ''user-1'') \<and>
   snapshot_returned (scenario signed_in (answer (snapshot_of True ''client'' ''admin'' False))
       (answer JNull)) [] (snapshot_of True ''client'' ''admin'' False) \<and>
   filter is_sync_request (calls_made (verifyAndFixAdminAccess
       (scenario signed_in (answer (snapshot_of True ''client'' ''admin'' False)) (answer JNull))) []) =
     [Rpc ''sync_user_admin_role'' (JObj [(''target_user_id'', JStr ''user-1'')])] \<and>
   fst (verifyAndFixAdminAccess
       (scenario signed_in (answer (snapshot_of True ''client'' ''admin'' False)) (answer JNull)) []) =
     Inr \<lparr>success = True, message =
       ''Admin role synced. Please refresh the page or log out and log back in.''\<rparr>"
proof -
  let ?env = "scenario signed_in (answer (snapshot_of True ''client'' ''admin'' False)) (answer JNull)"
  let ?snap = "snapshot_of True ''client'' ''admin'' False"
  have h1: "live_session ?env [] demo_session"
    by (simp add: live_session_def scenario_defs)
  have h2: "session_user_id demo_session = Inr (JStr ''user-1'')"
    by (simp add: session_user_id_def demo_session_def)
  have h3: "snapshot_returned ?env [] ?snap"
    by (simp add: snapshot_returned_def getAdminStatus_def io_defs scenario_defs)
  have h4: "field ?snap ''authenticated'' = JBool True"
    and h5: "field ?snap ''is_admin_result'' = JBool False"
    and h6: "field ?snap ''metadata_role'' = JStr ''admin''"
    and h7: "field ?snap ''profile_role'' \<noteq> JStr ''admin''"
    by (simp_all add: field_def snapshot_of_def)
  have ok: "request_succeeds (rpc ?env [GetSession, Rpc ''debug_admin_status'' JUndefined]
      ''sync_user_admin_role'' (JObj [(''target_user_id'', JStr ''user-1'')]))"
    by (simp add: request_succeeds_def scenario_defs)
  from repairable_divergence_one_sync [OF h1 h2 h3 h4 h5 h6 h7] ok
  show ?thesis using h1 h2 h3 by simp
qed

text \<open>
  A live session is not enough: when the session object has no user, reading
  \<open>session.user.id\<close> raises before \<open>syncAdminRole\<close> is called, so no sync request is
  made and the outer \<open>catch\<close> gives the verdict "Failed to verify admin access.".
\<close>

theorem userless_session_no_sync:
  "live_session (scenario userless (answer (snapshot_of True ''client'' ''admin'' False))
       (answer JNull)) [] (JObj []) \<and>
   snapshot_returned (scenario userless (answer (snapshot_of True ''client'' ''admin'' False))
       (answer JNull)) [] (snapshot_of True ''client'' ''admin'' False) \<and>
   field (snapshot_of True ''client'' ''admin'' False) ''authenticated'' = JBool True \<and>
   field (snapshot_of True ''client'' ''admin'' False) ''is_admin_result'' = JBool False \<and>
   field (snapshot_of True ''client'' ''admin'' False) ''metadata_role'' = JStr ''admin'' \<and>
   field (snapshot_of True ''client'' ''admin'' False) ''profile_role'' \<noteq> JStr ''admin'' \<and>
   filter is_sync_request (calls_made (verifyAndFixAdminAccess
       (scenario userless (answer (snapshot_of True ''client'' ''admin'' False)) (answer JNull))) []) =
     [] \<and>
   fst (verifyAndFixAdminAccess
       (scenario userless (answer (snapshot_of True ''client'' ''admin'' False)) (answer JNull)) []) =
     Inr \<lparr>success = False, message = ''Failed to verify admin access.''\<rparr>"
proof -
  let ?snap = "snapshot_of True ''client'' ''admin'' False"
  let ?env = "scenario userless (answer ?snap) (answer JNull)"
  have h1: "live_session ?env [] (JObj [])"
    by (simp add: live_session_def scenario_defs)
  have h2: "snapshot_returned ?env [] ?snap"
    by (simp add: snapshot_returned_def getAdminStatus_def io_defs scenario_defs)
  have f: "field ?snap ''authenticated'' = JBool True"
    "field ?snap ''is_admin_result'' = JBool False"
    "field ?snap ''metadata_role'' = JStr ''admin''"
    "field ?snap ''profile_role'' \<noteq> JStr ''admin''"
    by (simp_all add: field_def snapshot_of_def)
  have t: "truthy ?snap" by (simp add: snapshot_of_def)
  have run: "verifyAndFixAdminAccess ?env [] =
      (Inr verify_failed_verdict, [GetSession, Rpc ''debug_admin_status'' JUndefined])"
    using t f by (simp add: verify_live [OF h1 h2] io_defs session_user_id_def)
  have c1: "filter is_sync_request (calls_made (verifyAndFixAdminAccess ?env) []) = []"
    by (simp add: calls_made_def run)
  have c2: "fst (verifyAndFixAdminAccess ?env []) =
      Inr \<lparr>success = False, message = ''Failed to verify admin access.''\<rparr>"
    by (simp add: run verdict_defs)
  show ?thesis
    by (intro conjI h1 h2 f c1 c2)
qed

text \<open>
  C2. With a live session and a snapshot that has \<open>authenticated = true\<close> and
  \<open>is_admin_result = true\<close>, the verdict is the success "Admin access verified
  successfully.", whatever \<open>profile_role\<close> and \<open>metadata_role\<close> are.
\<close>

theorem already_admin_verified:
  assumes "live_session env tr s"
    and "snapshot_returned env tr snap"
    and "field snap ''authenticated'' = JBool True"
    and "field snap ''is_admin_result'' = JBool True"
  shows "fst (verifyAndFixAdminAccess env tr) =
           Inr \<lparr>success = True, message = ''Admin access verified successfully.''\<rparr>"
proof -
  have t: "truthy snap" using assms(3) field_defined_truthy [of snap "''authenticated''"] by simp
  show ?thesis
    using t assms(3,4)
    by (simp add: verify_live [OF assms(1,2)] io_defs verdict_defs)
qed

theorem already_admin_verified_witness:
  "live_session (scenario signed_in (answer (snapshot_of True ''client'' ''client'' True))
       (answer JNull)) [] demo_session \<and>
   snapshot_returned (scenario signed_in (answer (snapshot_of True ''client'' ''client'' True))
       (answer JNull)) [] (snapshot_of True ''client'' ''client'' True) \<and>
   fst (verifyAndFixAdminAccess
       (scenario signed_in (answer (snapshot_of True ''client'' ''client'' True)) (answer JNull)) []) =
     Inr \<lparr>success = True, message = ''Admin access verified successfully.''\<rparr>"
proof -
  let ?snap = "snapshot_of True ''client'' ''client'' True"
  let ?env = "scenario signed_in (answer ?snap) (answer JNull)"
  have h1: "live_session ?env [] demo_session"
    by (simp add: live_session_def scenario_defs)
  have h2: "snapshot_returned ?env [] ?snap"
    by (simp add: snapshot_returned_def getAdminStatus_def io_defs scenario_defs)
  have h3: "field ?snap ''authenticated'' = JBool True"
    and h4: "field ?snap ''is_admin_result'' = JBool True"
    by (simp_all add: field_def snapshot_of_def)
  from already_admin_verified [OF h1 h2 h3 h4] show ?thesis using h1 h2 by simp
qed

text \<open>
  C3. With a live session and a snapshot that has \<open>authenticated = false\<close>, the verdict
  is the failure "User is not authenticated.", whatever \<open>profile_role\<close>,
  \<open>metadata_role\<close> and \<open>is_admin_result\<close> are.
\<close>

theorem unauthenticated_snapshot_fails:
  assumes "live_session env tr s"
    and "snapshot_returned env tr snap"
    and "field snap ''authenticated'' = JBool False"
  shows "fst (verifyAndFixAdminAccess env tr) =
           Inr \<lparr>success = False, message = ''User is not authenticated.''\<rparr>"
proof -
  have t: "truthy snap" using assms(3) field_defined_truthy [of snap "''authenticated''"] by simp
  show ?thesis
    using t assms(3)
    by (simp add: verify_live [OF assms(1,2)] io_defs verdict_defs)
qed

theorem unauthenticated_snapshot_fails_witness:
  "live_session (scenario signed_in (answer (snapshot_of False ''admin'' ''admin'' True))
       (answer JNull)) [] demo_session \<and>
   snapshot_returned (scenario signed_in (answer (snapshot_of False ''admin'' ''admin'' True))
       (answer JNull)) [] (snapshot_of False ''admin'' ''admin'' True) \<and>
   fst (verifyAndFixAdminAccess
       (scenario signed_in (answer (snapshot_of False ''admin'' ''admin'' True)) (answer JNull)) []) =
     Inr \<lparr>success = False, message = ''User is not authenticated.''\<rparr>"
proof -
  let ?snap = "snapshot_of False ''admin'' ''admin'' True"
  let ?env = "scenario signed_in (answer ?snap) (answer JNull)"
  have h1: "live_session ?env [] demo_session"
    by (simp add: live_session_def scenario_defs)
  have h2: "snapshot_returned ?env [] ?snap"
    by (simp add: snapshot_returned_def getAdminStatus_def io_defs scenario_defs)
  have h3: "field ?snap ''authenticated'' = JBool False"
    by (simp add: field_def snapshot_of_def)
  from unauthenticated_snapshot_fails [OF h1 h2 h3] show ?thesis using h1 h2 by simp
qed

text \<open>
  C4. When the session accessor yields no session, or a session error, the verdict is
  the failure "No active session. Please log in." and the session accessor is the only
  call made: neither the snapshot fetch nor the sync request happens.
\<close>

theorem no_session_short_circuits:
  assumes "no_session env tr"
  shows "fst (verifyAndFixAdminAccess env tr) =
           Inr \<lparr>success = False, message = ''No active session. Please log in.''\<rparr> \<and>
         calls_made (verifyAndFixAdminAccess env) tr = [GetSession] \<and>
         filter is_snapshot_fetch (calls_made (verifyAndFixAdminAccess env) tr) = [] \<and>
         filter is_sync_request (calls_made (verifyAndFixAdminAccess env) tr) = []"
proof -
  from assms obtain r where r: "getSession env tr = Resolves r"
      "truthy (sessionError r) \<or> \<not> truthy (session r)"
    by (auto simp: no_session_def split: outcome.splits)
  then have "verifyAndFixAdminAccess env tr = (Inr no_session_verdict, tr @ [GetSession])"
    by (auto simp: verifyAndFixAdminAccess_def verify_body_def io_defs)
  then show ?thesis by (simp add: calls_made_def verdict_defs)
qed

theorem no_session_short_circuits_witness:
  "no_session (scenario signed_out (answer (snapshot_of True ''client'' ''admin'' False))
       (answer JNull)) [] \<and>
   fst (verifyAndFixAdminAccess
       (scenario signed_out (answer (snapshot_of True ''client'' ''admin'' False)) (answer JNull)) []) =
     Inr \<lparr>success = False, message = ''No active session. Please log in.''\<rparr> \<and>
   calls_made (verifyAndFixAdminAccess
       (scenario signed_out (answer (snapshot_of True ''client'' ''admin'' False)) (answer JNull))) [] =
     [GetSession]"
proof -
  let ?env = "scenario signed_out (answer (snapshot_of True ''client'' ''admin'' False)) (answer JNull)"
  have h: "no_session ?env []"
    by (simp add: no_session_def scenario_defs)
  from no_session_short_circuits [OF h] show ?thesis using h by simp
qed

text \<open>
  C5. With a live session and a snapshot that has \<open>authenticated = true\<close>,
  \<open>is_admin_result = false\<close> and \<open>metadata_role\<close> other than \<open>"admin"\<close>, no sync request
  is made and the verdict is the failure "Admin privileges not found. Contact support if
  you should have admin access.".
\<close>

theorem no_metadata_admin_no_sync:
  assumes "live_session env tr s"
    and "snapshot_returned env tr snap"
    and "field snap ''authenticated'' = JBool True"
    and "field snap ''is_admin_result'' = JBool False"
    and "field snap ''metadata_role'' \<noteq> JStr ''admin''"
  shows "filter is_sync_request (calls_made (verifyAndFixAdminAccess env) tr) = [] \<and>
         fst (verifyAndFixAdminAccess env tr) =
           Inr \<lparr>success = False, message =
             ''Admin privileges not found. Contact support if you should have admin access.''\<rparr>"
proof -
  have t: "truthy snap" using assms(3) field_defined_truthy [of snap "''authenticated''"] by simp
  show ?thesis
    using t assms(3-5)
    by (simp add: verify_live [OF assms(1,2)] calls_made_def io_defs verdict_defs)
qed

theorem no_metadata_admin_no_sync_witness:
  "live_session (scenario signed_in (answer (snapshot_of True ''client'' ''client'' False))
       (answer JNull)) [] demo_session \<and>
   snapshot_returned (scenario signed_in (answer (snapshot_of True ''client'' ''client'' False))
       (answer JNull)) [] (snapshot_of True ''client'' ''client'' False) \<and>
   filter is_sync_request (calls_made (verifyAndFixAdminAccess
       (scenario signed_in (answer (snapshot_of True ''client'' ''client'' False)) (answer JNull))) []) =
     [] \<and>
   fst (verifyAndFixAdminAccess
       (scenario signed_in (answer (snapshot_of True ''client'' ''client'' False)) (answer JNull)) []) =
     Inr \<lparr>success = False, message =
       ''Admin privileges not found. Contact support if you should have admin access.''\<rparr>"
proof -
  let ?snap = "snapshot_of True ''client'' ''client'' False"
  let ?env = "scenario signed_in (answer ?snap) (answer JNull)"
  have h1: "live_session ?env [] demo_session"
    by (simp add: live_session_def scenario_defs)
  have h2: "snapshot_returned ?env [] ?snap"
    by (simp add: snapshot_returned_def getAdminStatus_def io_defs scenario_defs)
  have h3: "field ?snap ''authenticated'' = JBool True"
    and h4: "field ?snap ''is_admin_result'' = JBool False"
    and h5: "field ?snap ''metadata_role'' \<noteq> JStr ''admin''"
    by (simp_all add: field_def snapshot_of_def)
  from no_metadata_admin_no_sync [OF h1 h2 h3 h4 h5] show ?thesis using h1 h2 by simp
qed

text \<open>
  C10. When the snapshot has \<open>is_admin_result = true\<close>, \<open>verifyAndFixAdminAccess\<close> makes
  no mutating call: its only calls are the session accessor and the snapshot fetch, and
  no sync request, also when \<open>metadata_role = "admin"\<close> and \<open>profile_role\<close> is not.
\<close>

theorem verified_admin_never_syncs:
  assumes "live_session env tr s"
    and "snapshot_returned env tr snap"
    and "field snap ''is_admin_result'' = JBool True"
  shows "calls_made (verifyAndFixAdminAccess env) tr =
           [GetSession, Rpc ''debug_admin_status'' JUndefined] \<and>
         filter is_sync_request (calls_made (verifyAndFixAdminAccess env) tr) = []"
proof -
  have t: "truthy snap" using assms(3) field_defined_truthy [of snap "''is_admin_result''"] by simp
  show ?thesis
    using t assms(3)
    by (simp add: verify_live [OF assms(1,2)] calls_made_def io_defs verdict_defs)
qed

theorem verified_admin_never_syncs_witness:
  "live_session (scenario signed_in (answer (snapshot_of True ''client'' ''admin'' True))
       (answer JNull)) [] demo_session \<and>
   snapshot_returned (scenario signed_in (answer (snapshot_of True ''client'' ''admin'' True))
       (answer JNull)) [] (snapshot_of True ''client'' ''admin'' True) \<and>
   calls_made (verifyAndFixAdminAccess
       (scenario signed_in (answer (snapshot_of True ''client'' ''admin'' True)) (answer JNull))) [] =
     [GetSession, Rpc ''debug_admin_status'' JUndefined] \<and>
   filter is_sync_request (calls_made (verifyAndFixAdminAccess
       (scenario signed_in (answer (snapshot_of True ''client'' ''admin'' True)) (answer JNull))) []) =
     []"
proof -
  let ?snap = "snapshot_of True ''client'' ''admin'' True"
  let ?env = "scenario signed_in (answer ?snap) (answer JNull)"
  have h1: "live_session ?env [] demo_session"
    by (simp add: live_session_def scenario_defs)
  have h2: "snapshot_returned ?env [] ?snap"
    by (simp add: snapshot_returned_def getAdminStatus_def io_defs scenario_defs)
  have h3: "field ?snap ''is_admin_result'' = JBool True"
    by (simp add: field_def snapshot_of_def)
  from verified_admin_never_syncs [OF h1 h2 h3] show ?thesis using h1 h2 by simp
qed

text \<open>
  C7, as amended. \<open>verifyAndFixAdminAccess\<close> never raises: whatever the remote
  operations do, it returns a verdict. An error in its own steps (the session accessor
  throws, or the session has no user to sync) gives the failure "Failed to verify admin
  access."; a snapshot request that throws gives the failure "Failed to check admin
  status."; a sync request that throws gives the failure "Admin privileges not found.
  Contact support if you should have admin access.".
\<close>

theorem verify_failures_by_step:
  "(\<exists>v. fst (verifyAndFixAdminAccess env tr) = Inr v) \<and>
   (throws (getSession env tr) \<longrightarrow>
      fst (verifyAndFixAdminAccess env tr) =
        Inr \<lparr>success = False, message = ''Failed to verify admin access.''\<rparr>) \<and>
   (\<forall>s. live_session env tr s \<and>
        throws (rpc env (tr @ [GetSession]) ''debug_admin_status'' JUndefined) \<longrightarrow>
      fst (verifyAndFixAdminAccess env tr) =
        Inr \<lparr>success = False, message = ''Failed to check admin status.''\<rparr>) \<and>
   (\<forall>s snap e. live_session env tr s \<and> snapshot_returned env tr snap \<and>
        repairable_divergence snap \<and> session_user_id s = Inl e \<longrightarrow>
      fst (verifyAndFixAdminAccess env tr) =
        Inr \<lparr>success = False, message = ''Failed to verify admin access.''\<rparr>) \<and>
   (\<forall>s snap uid. live_session env tr s \<and> snapshot_returned env tr snap \<and>
        repairable_divergence snap \<and> session_user_id s = Inr uid \<and>
        throws (rpc env (tr @ [GetSession, Rpc ''debug_admin_status'' JUndefined])
                  ''sync_user_admin_role'' (JObj [(''target_user_id'', uid)])) \<longrightarrow>
      fst (verifyAndFixAdminAccess env tr) =
        Inr \<lparr>success = False, message =
          ''Admin privileges not found. Contact support if you should have admin access.''\<rparr>)"
proof (intro conjI allI impI)
  show "\<exists>v. fst (verifyAndFixAdminAccess env tr) = Inr v" by (rule verify_returns)
next
  assume "throws (getSession env tr)"
  then show "fst (verifyAndFixAdminAccess env tr) =
      Inr \<lparr>success = False, message = ''Failed to verify admin access.''\<rparr>"
    by (cases "getSession env tr")
       (simp_all add: verifyAndFixAdminAccess_def verify_body_def io_defs verdict_defs)
next
  fix s
  assume a: "live_session env tr s \<and>
    throws (rpc env (tr @ [GetSession]) ''debug_admin_status'' JUndefined)"
  then have "snapshot_returned env tr JNull" by (simp add: snapshot_when_throws)
  with a show "fst (verifyAndFixAdminAccess env tr) =
      Inr \<lparr>success = False, message = ''Failed to check admin status.''\<rparr>"
    by (simp add: verify_live [of env tr s JNull] io_defs verdict_defs)
next
  fix s snap e
  assume a: "live_session env tr s \<and> snapshot_returned env tr snap \<and>
    repairable_divergence snap \<and> session_user_id s = Inl e"
  then have "truthy snap" by (simp add: repairable_truthy)
  with a show "fst (verifyAndFixAdminAccess env tr) =
      Inr \<lparr>success = False, message = ''Failed to verify admin access.''\<rparr>"
    by (simp add: verify_live [of env tr s snap] repairable_divergence_def io_defs verdict_defs)
next
  fix s snap uid
  assume a: "live_session env tr s \<and> snapshot_returned env tr snap \<and>
    repairable_divergence snap \<and> session_user_id s = Inr uid \<and>
    throws (rpc env (tr @ [GetSession, Rpc ''debug_admin_status'' JUndefined])
              ''sync_user_admin_role'' (JObj [(''target_user_id'', uid)]))"
  then have "truthy snap" by (simp add: repairable_truthy)
  with a show "fst (verifyAndFixAdminAccess env tr) =
      Inr \<lparr>success = False, message =
        ''Admin privileges not found. Contact support if you should have admin access.''\<rparr>"
    by (simp add: verify_live [of env tr s snap] repairable_divergence_def io_defs
        syncAdminRole_eq request_succeeds_def verdict_defs)
qed

theorem verify_failures_by_step_witness:
  "throws (getSession (scenario unreachable unreachable unreachable) []) \<and>
   fst (verifyAndFixAdminAccess (scenario unreachable unreachable unreachable) []) =
     Inr \<lparr>success = False, message = ''Failed to verify admin access.''\<rparr> \<and>
   live_session (scenario signed_in unreachable unreachable) [] demo_session \<and>
   throws (rpc (scenario signed_in unreachable unreachable) [GetSession]
             ''debug_admin_status'' JUndefined) \<and>
   fst (verifyAndFixAdminAccess (scenario signed_in unreachable unreachable) []) =
     Inr \<lparr>success = False, message = ''Failed to check admin status.''\<rparr> \<and>
   live_session (scenario userless (answer (snapshot_of True ''client'' ''admin'' False))
       (answer JNull)) [] (JObj []) \<and>
   session_user_id (JObj []) =
     Inl (ErrorInst ''Cannot read properties of undefined (reading id)'') \<and>
   fst (verifyAndFixAdminAccess
       (scenario userless (answer (snapshot_of True ''client'' ''admin'' False)) (answer JNull)) []) =
     Inr \<lparr>success = False, message = ''Failed to verify admin access.''\<rparr> \<and>
   throws (rpc (scenario signed_in (answer (snapshot_of True ''client'' ''admin'' False))
       unreachable) [GetSession, Rpc ''debug_admin_status'' JUndefined]
       ''sync_user_admin_role'' (JObj [(''target_user_id'', JStr ''user-1'')])) \<and>
   fst (verifyAndFixAdminAccess
       (scenario signed_in (answer (snapshot_of True ''client'' ''admin'' False)) unreachable) []) =
     Inr \<lparr>success = False, message =
       ''Admin privileges not found. Contact support if you should have admin access.''\<rparr>"
proof -
  let ?snap = "snapshot_of True ''client'' ''admin'' False"
  let ?down = "scenario unreachable unreachable unreachable"
  let ?nostatus = "scenario signed_in unreachable unreachable"
  let ?nouser = "scenario userless (answer ?snap) (answer JNull)"
  let ?nosync = "scenario signed_in (answer ?snap) unreachable"
  have h1: "throws (getSession ?down [])"
    by (simp add: scenario_defs)
  have h2: "live_session ?nostatus [] demo_session"
    by (simp add: live_session_def scenario_defs)
  have h3: "throws (rpc ?nostatus [GetSession] ''debug_admin_status'' JUndefined)"
    by (simp add: scenario_defs)
  have d: "repairable_divergence ?snap"
    by (simp add: repairable_divergence_def field_def snapshot_of_def)
  have h4: "live_session ?nouser [] (JObj [])"
    by (simp add: live_session_def scenario_defs)
  have h5: "snapshot_returned ?nouser [] ?snap"
    by (simp add: snapshot_returned_def getAdminStatus_def io_defs scenario_defs)
  have h6: "session_user_id (JObj []) =
      Inl (ErrorInst ''Cannot read properties of undefined (reading id)'')"
    by (simp add: session_user_id_def)
  have h7: "live_session ?nosync [] demo_session"
    by (simp add: live_session_def scenario_defs)
  have h8: "snapshot_returned ?nosync [] ?snap"
    by (simp add: snapshot_returned_def getAdminStatus_def io_defs scenario_defs)
  have h9: "session_user_id demo_session = Inr (JStr ''user-1'')"
    by (simp add: session_user_id_def demo_session_def)
  have h10: "throws (rpc ?nosync [GetSession, Rpc ''debug_admin_status'' JUndefined]
      ''sync_user_admin_role'' (JObj [(''target_user_id'', JStr ''user-1'')]))"
    by (simp add: scenario_defs)
  have c1: "fst (verifyAndFixAdminAccess ?down []) =
      Inr \<lparr>success = False, message = ''Failed to verify admin access.''\<rparr>"
    using verify_failures_by_step [of ?down "[]"] h1 by (simp; blast)
  have c2: "fst (verifyAndFixAdminAccess ?nostatus []) =
      Inr \<lparr>success = False, message = ''Failed to check admin status.''\<rparr>"
    using verify_failures_by_step [of ?nostatus "[]"] h2 h3 by (simp; blast)
  have c3: "fst (verifyAndFixAdminAccess ?nouser []) =
      Inr \<lparr>success = False, message = ''Failed to verify admin access.''\<rparr>"
    using verify_failures_by_step [of ?nouser "[]"] h4 h5 h6 d by (simp; blast)
  have c4: "fst (verifyAndFixAdminAccess ?nosync []) =
      Inr \<lparr>success = False, message =
        ''Admin privileges not found. Contact support if you should have admin access.''\<rparr>"
    using verify_failures_by_step [of ?nosync "[]"] h7 h8 h9 h10 d by (simp; blast)
  show ?thesis
    by (intro conjI h1 h2 h3 h4 h6 h10 c1 c2 c3 c4)
qed

text \<open>
  The generic message is not what every failing remote operation leads to: with a live
  session and a snapshot request that throws, the verdict is "Failed to check admin
  status.".
\<close>

theorem snapshot_throw_not_generic:
  "throws (rpc (scenario signed_in unreachable unreachable) [GetSession]
             ''debug_admin_status'' JUndefined) \<and>
   fst (verifyAndFixAdminAccess (scenario signed_in unreachable unreachable) []) =
     Inr \<lparr>success = False, message = ''Failed to check admin status.''\<rparr> \<and>
   fst (verifyAndFixAdminAccess (scenario signed_in unreachable unreachable) []) \<noteq>
     Inr \<lparr>success = False, message = ''Failed to verify admin access.''\<rparr>"
  by (simp add: verifyAndFixAdminAccess_def verify_body_def getAdminStatus_def io_defs
      scenario_defs verdict_defs)

section \<open>The boolean checks\<close>

text \<open>
  C6. \<open>isCurrentUserAdmin\<close> never raises. It returns \<open>false\<close> whenever the remote call
  reports an error, throws, or returns a value other than the boolean \<open>true\<close>; it
  returns \<open>true\<close> only when the remote call returns the boolean \<open>true\<close>.
\<close>

theorem isCurrentUserAdmin_safe_default:
  "(\<exists>b. fst (isCurrentUserAdmin env tr) = Inr b) \<and>
   (reports_error (rpc env tr ''is_current_user_admin'' JUndefined) \<longrightarrow>
      fst (isCurrentUserAdmin env tr) = Inr False) \<and>
   (throws (rpc env tr ''is_current_user_admin'' JUndefined) \<longrightarrow>
      fst (isCurrentUserAdmin env tr) = Inr False) \<and>
   (\<forall>r. rpc env tr ''is_current_user_admin'' JUndefined = Resolves r \<and> data r \<noteq> JBool True \<longrightarrow>
      fst (isCurrentUserAdmin env tr) = Inr False) \<and>
   (fst (isCurrentUserAdmin env tr) = Inr True \<longrightarrow>
      (\<exists>r. rpc env tr ''is_current_user_admin'' JUndefined = Resolves r \<and> data r = JBool True))"
  by (cases "rpc env tr ''is_current_user_admin'' JUndefined")
     (auto simp: isCurrentUserAdmin_def io_defs)


theorem isCurrentUserAdmin_safe_default_witness:
  "throws (rpc (scenario signed_in unreachable unreachable) []
             ''is_current_user_admin'' JUndefined) \<and>
   fst (isCurrentUserAdmin (scenario signed_in unreachable unreachable) []) = Inr False \<and>
   reports_error (rpc (scenario signed_in (answer JNull) (refusal ''denied'')) []
             ''is_current_user_admin'' JUndefined) \<and>
   fst (isCurrentUserAdmin (scenario signed_in (answer JNull) (refusal ''denied'')) []) =
     Inr False \<and>
   rpc (scenario signed_in (answer JNull) (answer (JStr ''true''))) []
     ''is_current_user_admin'' JUndefined = Resolves \<lparr>data = JStr ''true'', error = JNull\<rparr> \<and>
   fst (isCurrentUserAdmin (scenario signed_in (answer JNull) (answer (JStr ''true''))) []) =
     Inr False"
  using isCurrentUserAdmin_safe_default [of "scenario signed_in unreachable unreachable" "[]"]
    isCurrentUserAdmin_safe_default
      [of "scenario signed_in (answer JNull) (refusal ''denied'')" "[]"]
    isCurrentUserAdmin_safe_default
      [of "scenario signed_in (answer JNull) (answer (JStr ''true''))" "[]"]
  by (simp add: scenario_defs)

text \<open>
  C9. \<open>syncAdminRole\<close> never raises, and returns \<open>true\<close> exactly when the remote call
  neither throws nor reports an error, whatever \<open>data\<close> it carries.
\<close>

theorem syncAdminRole_reports_request:
  "(\<exists>b. fst (syncAdminRole env userId tr) = Inr b) \<and>
   (fst (syncAdminRole env userId tr) = Inr True \<longleftrightarrow>
      (\<exists>r. rpc env tr ''sync_user_admin_role'' (JObj [(''target_user_id'', userId)]) = Resolves r \<and>
           \<not> truthy (error r)))"
  by (cases "rpc env tr ''sync_user_admin_role'' (JObj [(''target_user_id'', userId)])")
     (auto simp: syncAdminRole_def io_defs)


section \<open>Role mutations\<close>

text \<open>
  C8, as amended. \<open>grantAdminRole\<close> and \<open>revokeAdminRole\<close> never raise and always
  return a value. When the remote call reports an error, the result has
  \<open>success = false\<close> and the authority's error text as message when that text is
  truthy, and the operation's fixed text ("Failed to grant admin role", "Failed to revoke
  admin role") otherwise. When the remote call throws, the result has \<open>success = false\<close>
  and the message of the thrown \<open>Error\<close>, or the fixed text for another thrown value.
  Otherwise \<open>data\<close> is returned as the authority sent it.
\<close>

theorem role_operations_structured:
  "(\<exists>v. fst (grantAdminRole env userId tr) = Inr v) \<and>
   (\<exists>v. fst (revokeAdminRole env userId tr) = Inr v) \<and>
   (reports_error (rpc env tr ''grant_admin_role'' (JObj [(''target_user_id'', userId)])) \<longrightarrow>
      fst (grantAdminRole env userId tr) =
        Inr (failure_result
          (if truthy (error_text
                (rpc env tr ''grant_admin_role'' (JObj [(''target_user_id'', userId)])))
           then error_text (rpc env tr ''grant_admin_role'' (JObj [(''target_user_id'', userId)]))
           else JStr ''Failed to grant admin role''))) \<and>
   (reports_error (rpc env tr ''revoke_admin_role'' (JObj [(''target_user_id'', userId)])) \<longrightarrow>
      fst (revokeAdminRole env userId tr) =
        Inr (failure_result
          (if truthy (error_text
                (rpc env tr ''revoke_admin_role'' (JObj [(''target_user_id'', userId)])))
           then error_text (rpc env tr ''revoke_admin_role'' (JObj [(''target_user_id'', userId)]))
           else JStr ''Failed to revoke admin role''))) \<and>
   (\<forall>m. rpc env tr ''grant_admin_role'' (JObj [(''target_user_id'', userId)]) =
          Rejects (ErrorInst m) \<longrightarrow>
      fst (grantAdminRole env userId tr) = Inr (failure_result (JStr m))) \<and>
   (\<forall>m. rpc env tr ''revoke_admin_role'' (JObj [(''target_user_id'', userId)]) =
          Rejects (ErrorInst m) \<longrightarrow>
      fst (revokeAdminRole env userId tr) = Inr (failure_result (JStr m))) \<and>
   (\<forall>v. rpc env tr ''grant_admin_role'' (JObj [(''target_user_id'', userId)]) =
          Rejects (ThrownVal v) \<longrightarrow>
      fst (grantAdminRole env userId tr) =
        Inr (failure_result (JStr ''Failed to grant admin role''))) \<and>
   (\<forall>v. rpc env tr ''revoke_admin_role'' (JObj [(''target_user_id'', userId)]) =
          Rejects (ThrownVal v) \<longrightarrow>
      fst (revokeAdminRole env userId tr) =
        Inr (failure_result (JStr ''Failed to revoke admin role''))) \<and>
   (\<forall>r. rpc env tr ''grant_admin_role'' (JObj [(''target_user_id'', userId)]) = Resolves r \<and>
        \<not> truthy (error r) \<longrightarrow>
      fst (grantAdminRole env userId tr) = Inr (data r)) \<and>
   (\<forall>r. rpc env tr ''revoke_admin_role'' (JObj [(''target_user_id'', userId)]) = Resolves r \<and>
        \<not> truthy (error r) \<longrightarrow>
      fst (revokeAdminRole env userId tr) = Inr (data r))"
proof (intro conjI allI impI)
  show "\<exists>v. fst (grantAdminRole env userId tr) = Inr v"
    by (simp add: grantAdminRole_eq)
  show "\<exists>v. fst (revokeAdminRole env userId tr) = Inr v"
    by (simp add: revokeAdminRole_eq)
qed (cases "rpc env tr ''grant_admin_role'' (JObj [(''target_user_id'', userId)])";
     cases "rpc env tr ''revoke_admin_role'' (JObj [(''target_user_id'', userId)])";
     simp add: grantAdminRole_eq revokeAdminRole_eq)+

theorem role_operations_structured_witness:
  "reports_error (rpc (scenario signed_in (refusal ''permission denied'') (refusal ''permission denied''))
      [] ''revoke_admin_role'' (JObj [(''target_user_id'', JStr ''user-1'')])) \<and>
   fst (revokeAdminRole (scenario signed_in (refusal ''permission denied'') (refusal ''permission denied''))
      (JStr ''user-1'') []) =
     Inr (JObj [(''success'', JBool False), (''message'', JStr ''permission denied'')]) \<and>
   fst (grantAdminRole (scenario signed_in (refusal ''permission denied'') (refusal ''permission denied''))
      (JStr ''user-1'') []) =
     Inr (JObj [(''success'', JBool False), (''message'', JStr ''permission denied'')])"
  using role_operations_structured
    [of "scenario signed_in (refusal ''permission denied'') (refusal ''permission denied'')"
        "JStr ''user-1''" "[]"]
  by (simp add: scenario_defs failure_result_def field_def)

text \<open>
  An error whose text is empty is not reported with that text: the fixed text takes its
  place.
\<close>

theorem empty_error_text_replaced:
  "reports_error (rpc (scenario signed_in (refusal []) (refusal [])) []
      ''grant_admin_role'' (JObj [(''target_user_id'', JStr ''user-1'')])) \<and>
   error_text (rpc (scenario signed_in (refusal []) (refusal [])) []
      ''grant_admin_role'' (JObj [(''target_user_id'', JStr ''user-1'')])) = JStr [] \<and>
   fst (grantAdminRole (scenario signed_in (refusal []) (refusal [])) (JStr ''user-1'') []) =
     Inr (JObj [(''success'', JBool False), (''message'', JStr ''Failed to grant admin role'')])"
  by (simp add: grantAdminRole_def io_defs scenario_defs failure_result_def field_def)

text \<open>
  What is returned without an error is whatever the authority sent, here \<open>null\<close>, which
  is no \<open>RoleOperationResult\<close>.
\<close>

lemma null_data_passed_on:
  "fst (grantAdminRole (scenario signed_in (answer JNull) (answer JNull)) (JStr ''user-1'') []) =
     Inr JNull \<and> \<not> is_RoleOperationResult JNull"
  by (simp add: grantAdminRole_def io_defs scenario_defs)

end
